theory Spec2Isabelle
  imports Complex_Main
begin

section \<open>Data model of \<^verbatim>\<open>converters/onnx2nnet.py\<close>\<close>

text \<open>
  The converter reads a parsed ONNX graph. Only the parts of the graph that the code
  touches are modelled: the names of the graph-level inputs and outputs, the node list
  and the initializer list.
\<close>

datatype py_error = AssertionError | IndexError

text \<open>
  A floating-point number, as the elements of the arrays and the \<^verbatim>\<open>f\<close> field of an
  attribute hold it: a finite value, one of the two infinities, or NaN. A finite value
  is a real: rounding, the overflow of a finite result and the sign of zero are not
  modelled. The bound and normalization lists of the caller are only passed through or
  filled with finite constants; they stay lists of reals.
\<close>

datatype ieee_float = Finite real | PosInf | NegInf | NaN

text \<open>
  The multiplication of numpy, which follows IEEE 754: NaN is absorbing, zero times an
  infinity is NaN, and an infinity times a non-zero value is the infinity of the
  product's sign.
\<close>

fun fmul :: "ieee_float \<Rightarrow> ieee_float \<Rightarrow> ieee_float" where
  "fmul NaN y = NaN"
| "fmul x NaN = NaN"
| "fmul (Finite a) (Finite b) = Finite (a * b)"
| "fmul (Finite a) PosInf = (if a = 0 then NaN else if 0 < a then PosInf else NegInf)"
| "fmul (Finite a) NegInf = (if a = 0 then NaN else if 0 < a then NegInf else PosInf)"
| "fmul PosInf (Finite b) = (if b = 0 then NaN else if 0 < b then PosInf else NegInf)"
| "fmul NegInf (Finite b) = (if b = 0 then NaN else if 0 < b then NegInf else PosInf)"
| "fmul PosInf PosInf = PosInf"
| "fmul PosInf NegInf = NegInf"
| "fmul NegInf PosInf = NegInf"
| "fmul NegInf NegInf = PosInf"

text \<open>
  A numpy array: its \<open>shape\<close> tuple and its elements in row-major order. A well-formed
  array has \<open>length (elems a) = prod_list (shape a)\<close>.
\<close>

record ndarray =
  shape :: "nat list"
  elems :: "ieee_float list"

definition wf_array :: "ndarray \<Rightarrow> bool" where
  "wf_array a = (length (elems a) = prod_list (shape a))"

text \<open>An initializer: \<open>to_array\<close> stands for \<^verbatim>\<open>numpy_helper.to_array(inits)\<close>.\<close>

record initializer =
  init_name :: string
  to_array :: ndarray

text \<open>An attribute carries a name and the payload fields \<^verbatim>\<open>f\<close> and \<^verbatim>\<open>i\<close>.\<close>

record attribute =
  attr_name :: string
  attr_f :: ieee_float
  attr_i :: int

record node =
  op_type :: string
  node_input :: "string list"
  node_output :: "string list"
  node_attribute :: "attribute list"

text \<open>\<open>graph_input\<close> and \<open>graph_output\<close> hold the \<^verbatim>\<open>.name\<close> of each declared tensor.\<close>

record graph =
  graph_input :: "string list"
  graph_output :: "string list"
  graph_node :: "node list"
  graph_initializer :: "initializer list"

section \<open>The array operations used by the converter\<close>

text \<open>Row-major multi-index of the flat position \<open>k\<close> in an array of the given shape.\<close>

fun unravel_index :: "nat \<Rightarrow> nat list \<Rightarrow> nat list" where
  "unravel_index k [] = []"
| "unravel_index k (d # ds) = (k div prod_list ds) # unravel_index (k mod prod_list ds) ds"

text \<open>Flat position of a multi-index in an array of the given shape.\<close>

fun ravel_index :: "nat list \<Rightarrow> nat list \<Rightarrow> nat" where
  "ravel_index [] ds = 0"
| "ravel_index (i # ix) [] = 0"
| "ravel_index (i # ix) (d # ds) = i * prod_list ds + ravel_index ix ds"

text \<open>\<^verbatim>\<open>np.transpose(w)\<close> and \<^verbatim>\<open>w.transpose()\<close>: the axes are reversed.\<close>

definition np_transpose :: "ndarray \<Rightarrow> ndarray" where
  "np_transpose a =
     (let s = rev (shape a)
      in \<lparr>shape = s,
          elems = map (\<lambda>k. elems a ! ravel_index (rev (unravel_index k s)) (shape a))
                      [0..<prod_list s]\<rparr>)"

text \<open>\<^verbatim>\<open>a *= c\<close> for a scalar \<open>c\<close>.\<close>

definition scale :: "ieee_float \<Rightarrow> ndarray \<Rightarrow> ndarray" where
  "scale c a = a\<lparr>elems := map (\<lambda>x. fmul x c) (elems a)\<rparr>"

text \<open>\<^verbatim>\<open>np.zeros(n)\<close>.\<close>

definition np_zeros :: "nat \<Rightarrow> ndarray" where
  "np_zeros n = \<lparr>shape = [n], elems = replicate n (Finite 0)\<rparr>"

text \<open>
  Modelled from the spec: \<^verbatim>\<open>np.finfo(np.float32).max\<close> and \<^verbatim>\<open>.min\<close> are constants
  of numpy, the most-positive and most-negative representable float32, that is
  \<open>\<plusminus> (2 - 2 ^ -23) * 2 ^ 127\<close>.
\<close>

definition float32_max :: real where
  "float32_max = (2 ^ 24 - 1) * 2 ^ 104"

definition float32_min :: real where
  "float32_min = - float32_max"

section \<open>The scan over the nodes\<close>

text \<open>What the function prints, one constructor per \<^verbatim>\<open>print\<close> statement.\<close>

datatype msg =
    NotSupported string
  | TakingTranspose
  | Converted string
  | ToNNet string
  | PrintMins "real list"
  | PrintMaxes "real list"
  | NameMismatch string string
  | LenWeights nat
  | LenMismatch nat nat
  | CouldNotWrite

text \<open>
  The mutable variables of the loop: \<open>cursor\<close> is the variable \<^verbatim>\<open>inputName\<close>, which the
  loop overwrites with the output name of each node it consumes.
\<close>

record scan_state =
  cursor :: string
  weights :: "ndarray list"
  biases :: "ndarray list"
  printed :: "msg list"

text \<open>
  The outcome of one loop body, and of the loop: \<open>Next\<close> when control reaches the end
  normally, \<open>Stop\<close> when a \<^verbatim>\<open>break\<close> was executed, \<open>Raise\<close> when an exception
  escapes.
\<close>

datatype flow = Next scan_state | Stop scan_state | Raise py_error

text \<open>\<^verbatim>\<open>[numpy_helper.to_array(inits) for inits in graph.initializer if inits.name==nm]\<close>\<close>

definition lookup_all :: "initializer list \<Rightarrow> string \<Rightarrow> ndarray list" where
  "lookup_all inits nm = map to_array (filter (\<lambda>i. init_name i = nm) inits)"

text \<open>The attribute loop of the Gemm branch; a later attribute overrides an earlier one.\<close>

record gemm_attrs =
  alpha :: ieee_float
  beta :: ieee_float
  transA :: bool
  transB :: bool

definition read_attr :: "gemm_attrs \<Rightarrow> attribute \<Rightarrow> gemm_attrs" where
  "read_attr g a =
     (if attr_name a = ''alpha'' then g\<lparr>alpha := attr_f a\<rparr>
      else if attr_name a = ''beta'' then g\<lparr>beta := attr_f a\<rparr>
      else if attr_name a = ''transA'' then g\<lparr>transA := (attr_i a \<noteq> 0)\<rparr>
      else if attr_name a = ''transB'' then g\<lparr>transB := (attr_i a \<noteq> 0)\<rparr>
      else g)"

definition read_attrs :: "attribute list \<Rightarrow> gemm_attrs" where
  "read_attrs as =
     foldl read_attr \<lparr>alpha = Finite 1, beta = Finite 1, transA = False, transB = False\<rparr> as"

text \<open>\<^verbatim>\<open>inputName = node.output[0]\<close>, which raises on a node without outputs.\<close>

definition advance :: "node \<Rightarrow> scan_state \<Rightarrow> flow" where
  "advance n s =
     (case node_output n of
        [] \<Rightarrow> Raise IndexError
      | out # _ \<Rightarrow> Next (s\<lparr>cursor := out\<rparr>))"

text \<open>The bias of a Gemm node, before it is multiplied by \<open>beta\<close>.\<close>

definition gemm_bias :: "initializer list \<Rightarrow> string \<Rightarrow> ndarray \<Rightarrow> py_error + ndarray" where
  "gemm_bias inits biasName weight =
     (if biasName \<in> set (map init_name inits) then
        (case lookup_all inits biasName of
           [] \<Rightarrow> Inl IndexError
         | b # _ \<Rightarrow> Inr b)
      else
        (case shape weight of
           [] \<Rightarrow> Inl IndexError
         | r # _ \<Rightarrow> Inr (np_zeros r)))"

text \<open>
  The dispatch on the operator kind, for a node whose inputs contain the cursor
  (lines 52 to 128 of the source).
\<close>

definition visit :: "initializer list \<Rightarrow> node \<Rightarrow> scan_state \<Rightarrow> flow" where
  "visit inits n s =
     (if op_type n = ''MatMul'' then
        if length (node_input n) \<noteq> 2 then Raise AssertionError
        else
          let weightIndex = (if node_input n ! 0 = cursor s then 1 else 0);
              weightName = node_input n ! weightIndex
          in advance n (s\<lparr>weights := weights s @ lookup_all inits weightName\<rparr>)
      else if op_type n = ''Add'' then
        if length (node_input n) \<noteq> 2 then Raise AssertionError
        else
          let biasIndex = (if node_input n ! 0 = cursor s then 1 else 0);
              biasName = node_input n ! biasIndex
          in advance n (s\<lparr>biases := biases s @ lookup_all inits biasName\<rparr>)
      else if op_type n = ''Gemm'' then
        if length (node_input n) \<noteq> 3 then Raise AssertionError
        else
          let a = read_attrs (node_attribute n);
              weightName = node_input n ! 1;
              biasName = node_input n ! 2
          in (case lookup_all inits weightName of
                [] \<Rightarrow> Raise IndexError
              | w # _ \<Rightarrow>
                  let weight = scale (alpha a) (if transA a then np_transpose w else w)
                  in (case gemm_bias inits biasName weight of
                        Inl e \<Rightarrow> Raise e
                      | Inr bias \<Rightarrow>
                          advance n (s\<lparr>weights := weights s @ [weight],
                                       biases := biases s @ [scale (beta a) bias]\<rparr>)))
      else if op_type n = ''Relu'' then advance n s
      else Stop (s\<lparr>weights := [], biases := [],
                   printed := printed s @ [NotSupported (op_type n)]\<rparr>))"

text \<open>
  The \<^verbatim>\<open>for node in graph.node\<close> loop. A node whose inputs do not contain the cursor is
  skipped; after a consumed node the loop breaks when the cursor is the output name.
\<close>

fun scan :: "initializer list \<Rightarrow> string \<Rightarrow> node list \<Rightarrow> scan_state \<Rightarrow> flow" where
  "scan inits outputName [] s = Next s"
| "scan inits outputName (n # ns) s =
     (if cursor s \<in> set (node_input n) then
        (case visit inits n s of
           Raise e \<Rightarrow> Raise e
         | Stop s' \<Rightarrow> Stop s'
         | Next s' \<Rightarrow>
             if outputName = cursor s' then Stop s' else scan inits outputName ns s')
      else scan inits outputName ns s)"

section \<open>After the scan\<close>

text \<open>The arguments of the call of \<^verbatim>\<open>writeNNet\<close>.\<close>

record write_call =
  w_weights :: "ndarray list"
  w_biases :: "ndarray list"
  w_inputMins :: "real list"
  w_inputMaxes :: "real list"
  w_means :: "real list"
  w_ranges :: "real list"
  w_nnetFile :: string

text \<open>
  How a call ends: with an exception, with the call of the writer, or with neither
  (the function returns after printing that no file could be written).
\<close>

datatype outcome = Raised py_error | Wrote write_call | NotWritten

text \<open>\<^verbatim>\<open>if x is None: x = n*[v]\<close>\<close>

definition default_list :: "real list option \<Rightarrow> nat \<Rightarrow> real \<Rightarrow> real list" where
  "default_list given n v = (case given of None \<Rightarrow> replicate n v | Some xs \<Rightarrow> xs)"

text \<open>The three conditions of line 140.\<close>

definition extracted_ok :: "string \<Rightarrow> string \<Rightarrow> ndarray list \<Rightarrow> ndarray list \<Rightarrow> bool" where
  "extracted_ok outputName inputName ws bs =
     (outputName = inputName \<and> length ws > 0 \<and> length ws = length bs)"

text \<open>The diagnostic prints of the \<^verbatim>\<open>else\<close> branch (lines 162 to 168).\<close>

definition diagnostics :: "string \<Rightarrow> string \<Rightarrow> ndarray list \<Rightarrow> ndarray list \<Rightarrow> msg list" where
  "diagnostics outputName inputName ws bs =
     (if \<not> outputName = inputName then [NameMismatch outputName inputName] else []) @
     (if \<not> length ws > 0 then [LenWeights (length ws)] else []) @
     (if \<not> length ws = length bs then [LenMismatch (length ws) (length bs)] else []) @
     [CouldNotWrite]"

text \<open>Lines 134 to 168: the optional transposition, the check and the call of the writer.\<close>

definition finish ::
  "string \<Rightarrow> string \<Rightarrow> string \<Rightarrow> bool \<Rightarrow>
   real list option \<Rightarrow> real list option \<Rightarrow> real list option \<Rightarrow> real list option \<Rightarrow>
   scan_state \<Rightarrow> msg list \<times> outcome" where
  "finish onnxFile nnetFile outputName take_transpose inputMins inputMaxes means ranges s =
     (let out1 = printed s @ (if take_transpose then [TakingTranspose] else []);
          ws = (if take_transpose then map np_transpose (weights s) else weights s);
          bs = biases s
      in if extracted_ok outputName (cursor s) ws bs then
           (case shape (hd ws) of
              [] \<Rightarrow> (out1, Raised IndexError)
            | inputSize # _ \<Rightarrow>
                let mins = default_list inputMins inputSize float32_min;
                    maxes = default_list inputMaxes inputSize float32_max;
                    means' = default_list means (inputSize + 1) 0;
                    ranges' = default_list ranges (inputSize + 1) 1
                in (out1 @ [Converted onnxFile, ToNNet nnetFile, PrintMins mins, PrintMaxes maxes],
                    Wrote \<lparr>w_weights = ws, w_biases = bs, w_inputMins = mins,
                           w_inputMaxes = maxes, w_means = means', w_ranges = ranges',
                           w_nnetFile = nnetFile\<rparr>))
         else (out1 @ diagnostics outputName (cursor s) ws bs, NotWritten))"

section \<open>The converter\<close>

text \<open>
  Lines 28 to 33: an empty name is replaced by the name of the only declared tensor;
  the \<^verbatim>\<open>assert\<close> fails when there is not exactly one.
\<close>

definition resolve_name :: "string \<Rightarrow> string list \<Rightarrow> py_error + string" where
  "resolve_name nm declared =
     (if nm = [] then
        (if length declared = 1 then Inr (declared ! 0) else Inl AssertionError)
      else Inr nm)"

definition init_state :: "string \<Rightarrow> scan_state" where
  "init_state inputName = \<lparr>cursor = inputName, weights = [], biases = [], printed = []\<rparr>"

text \<open>
  The function \<^verbatim>\<open>onnx2nnet\<close>. The graph \<open>g\<close> is what \<^verbatim>\<open>onnx.load(onnxFile).graph\<close>
  returned. The result is what was printed and how the call ended.
\<close>

definition onnx2nnet ::
  "string \<Rightarrow> graph \<Rightarrow>
   real list option \<Rightarrow> real list option \<Rightarrow> real list option \<Rightarrow> real list option \<Rightarrow>
   string \<Rightarrow> string \<Rightarrow> string \<Rightarrow> bool \<Rightarrow> msg list \<times> outcome" where
  "onnx2nnet onnxFile g inputMins inputMaxes means ranges nnetFile inputName outputName
     take_transpose =
     (let nnetFile' =
            (if nnetFile = [] then take (length onnxFile - 4) onnxFile @ ''nnet''
             else nnetFile)
      in case resolve_name inputName (graph_input g) of
           Inl e \<Rightarrow> ([], Raised e)
         | Inr inputName' \<Rightarrow>
             (case resolve_name outputName (graph_output g) of
                Inl e \<Rightarrow> ([], Raised e)
              | Inr outputName' \<Rightarrow>
                  (case scan (graph_initializer g) outputName' (graph_node g)
                          (init_state inputName') of
                     Raise e \<Rightarrow> ([], Raised e)
                   | Stop s \<Rightarrow>
                       finish onnxFile nnetFile' outputName' take_transpose
                         inputMins inputMaxes means ranges s
                   | Next s \<Rightarrow>
                       finish onnxFile nnetFile' outputName' take_transpose
                         inputMins inputMaxes means ranges s)))"

section \<open>Graphs that differ in the value of transB\<close>

text \<open>
  Two attributes are related when they are equal, or when both are named transB (their
  payloads may then differ). Two nodes are related when they agree in everything but
  the payloads of their transB attributes.
\<close>

definition same_but_transB_attr :: "attribute \<Rightarrow> attribute \<Rightarrow> bool" where
  "same_but_transB_attr a a' =
     (if attr_name a = ''transB'' then attr_name a' = ''transB'' else a' = a)"

definition same_but_transB :: "node \<Rightarrow> node \<Rightarrow> bool" where
  "same_but_transB n n' =
     (op_type n' = op_type n \<and> node_input n' = node_input n
      \<and> node_output n' = node_output n
      \<and> list_all2 same_but_transB_attr (node_attribute n) (node_attribute n'))"

section \<open>Example graphs\<close>

text \<open>Small arrays, initializers, nodes and graphs on which the theorems below are run.\<close>

definition ex_W :: ndarray where
  "ex_W = \<lparr>shape = [2, 3], elems = map Finite [1, 2, 3, 4, 5, 6]\<rparr>"

definition ex_B :: ndarray where
  "ex_B = \<lparr>shape = [2], elems = map Finite [7, 8]\<rparr>"

definition ex_S :: ndarray where
  "ex_S = \<lparr>shape = [], elems = map Finite [5]\<rparr>"

definition ex_inits :: "initializer list" where
  "ex_inits =
     [\<lparr>init_name = ''W'', to_array = ex_W\<rparr>,
      \<lparr>init_name = ''B'', to_array = ex_B\<rparr>,
      \<lparr>init_name = ''S'', to_array = ex_S\<rparr>,
      \<lparr>init_name = ''D'', to_array = ex_W\<rparr>,
      \<lparr>init_name = ''D'', to_array = ex_B\<rparr>]"

definition ex_node :: "string \<Rightarrow> string list \<Rightarrow> string \<Rightarrow> attribute list \<Rightarrow> node" where
  "ex_node op ins out as =
     \<lparr>op_type = op, node_input = ins, node_output = [out], node_attribute = as\<rparr>"

definition ex_graph :: "node list \<Rightarrow> graph" where
  "ex_graph ns =
     \<lparr>graph_input = [''X''], graph_output = [''Z''], graph_node = ns,
      graph_initializer = ex_inits\<rparr>"

definition ex_state :: "string \<Rightarrow> ndarray list \<Rightarrow> ndarray list \<Rightarrow> scan_state" where
  "ex_state c ws bs = \<lparr>cursor = c, weights = ws, biases = bs, printed = []\<rparr>"

section \<open>Properties of the array operations\<close>

lemma wf_np_transpose: "wf_array (np_transpose a)"
  by (simp add: wf_array_def np_transpose_def Let_def)

lemma wf_scale: "wf_array a \<Longrightarrow> wf_array (scale c a)"
  by (simp add: wf_array_def scale_def)

lemma wf_np_zeros: "wf_array (np_zeros n)"
  by (simp add: wf_array_def np_zeros_def)

text \<open>On a matrix with \<open>r\<close> rows and \<open>c\<close> columns, entry \<open>(j, i)\<close> of the transpose is entry \<open>(i, j)\<close>.\<close>

lemma np_transpose_matrix:
  assumes "shape a = [r, c]" and "i < r" and "j < c"
  shows "elems (np_transpose a) ! (j * r + i) = elems a ! (i * c + j)"
proof -
  have "j * r + i < (j + 1) * r" using assms(2) by simp
  also have "\<dots> \<le> c * r" using assms(3) by (simp add: Suc_leI mult_le_mono1 del: mult_Suc)
  finally have k: "j * r + i < c * r" .
  show ?thesis
    using assms k by (simp add: np_transpose_def Let_def)
qed

lemma np_transpose_vector:
  assumes "shape a = [n]" and "wf_array a"
  shows "np_transpose a = a"
  using assms by (cases a) (auto simp: np_transpose_def Let_def wf_array_def map_nth)

lemma shape_np_transpose: "shape (np_transpose a) = rev (shape a)"
  by (simp add: np_transpose_def Let_def)

section \<open>Properties of the loop\<close>

lemma scan_append:
  "scan inits out (pre @ post) s =
     (case scan inits out pre s of
        Next s' \<Rightarrow> scan inits out post s'
      | Stop s' \<Rightarrow> Stop s'
      | Raise e \<Rightarrow> Raise e)"
  by (induction pre arbitrary: s) (auto split: flow.splits)

lemma scan_consumes:
  assumes "scan inits out pre s0 = Next s"
    and "cursor s \<in> set (node_input n)"
  shows "scan inits out (pre @ n # post) s0 =
     (case visit inits n s of
        Raise e \<Rightarrow> Raise e
      | Stop s' \<Rightarrow> Stop s'
      | Next s' \<Rightarrow> if out = cursor s' then Stop s' else scan inits out post s')"
  using assms by (simp add: scan_append)

lemma onnx2nnet_resolved:
  assumes "resolve_name inputName (graph_input g) = Inr i"
    and "resolve_name outputName (graph_output g) = Inr out"
  shows "onnx2nnet f g mi ma me ra nf inputName outputName tt =
     (case scan (graph_initializer g) out (graph_node g) (init_state i) of
        Raise e \<Rightarrow> ([], Raised e)
      | Stop s \<Rightarrow>
          finish f (if nf = [] then take (length f - 4) f @ ''nnet'' else nf) out tt
            mi ma me ra s
      | Next s \<Rightarrow>
          finish f (if nf = [] then take (length f - 4) f @ ''nnet'' else nf) out tt
            mi ma me ra s)"
  using assms by (simp add: onnx2nnet_def Let_def)

lemma lookup_all_Nil: "(lookup_all inits nm = []) = (nm \<notin> set (map init_name inits))"
  by (auto simp: lookup_all_def filter_empty_conv)

section \<open>Properties of the final check\<close>

lemma extracted_ok_transpose:
  "extracted_ok out c (map np_transpose ws) bs = extracted_ok out c ws bs"
  by (simp add: extracted_ok_def)

lemma diagnostics_transpose:
  "diagnostics out c (map np_transpose ws) bs = diagnostics out c ws bs"
  by (simp add: diagnostics_def)

lemma finish_no_weights:
  assumes "weights s = []"
  shows "snd (finish f nf out tt mi ma me ra s) = NotWritten"
  using assms by (simp add: finish_def extracted_ok_def Let_def)

lemma finish_rejects:
  assumes "\<not> extracted_ok out (cursor s) (weights s) (biases s)"
  shows "finish f nf out tt mi ma me ra s =
     (printed s @ (if tt then [TakingTranspose] else []) @
        diagnostics out (cursor s) (weights s) (biases s), NotWritten)"
  using assms
  by (simp add: finish_def Let_def extracted_ok_transpose diagnostics_transpose)

lemma finish_rank0:
  assumes "extracted_ok out (cursor s) (weights s) (biases s)"
    and "shape (hd (weights s)) = []"
  shows "finish f nf out tt mi ma me ra s =
     (printed s @ (if tt then [TakingTranspose] else []), Raised IndexError)"
proof -
  from assms(1) have ne: "weights s \<noteq> []" by (auto simp: extracted_ok_def)
  then have "shape (hd (map np_transpose (weights s))) = []"
    using assms(2) by (simp add: hd_map shape_np_transpose)
  then show ?thesis using assms
    by (simp add: finish_def Let_def extracted_ok_transpose)
qed

lemma finish_accepts:
  assumes "extracted_ok out (cursor s) (weights s) (biases s)"
    and "shape (hd (weights s)) \<noteq> []"
  shows "finish f nf out tt mi ma me ra s =
     (let ws = (if tt then map np_transpose (weights s) else weights s);
          k = hd (shape (hd ws))
      in (printed s @ (if tt then [TakingTranspose] else []) @
            [Converted f, ToNNet nf, PrintMins (default_list mi k float32_min),
             PrintMaxes (default_list ma k float32_max)],
          Wrote \<lparr>w_weights = ws, w_biases = biases s,
                 w_inputMins = default_list mi k float32_min,
                 w_inputMaxes = default_list ma k float32_max,
                 w_means = default_list me (k + 1) 0,
                 w_ranges = default_list ra (k + 1) 1,
                 w_nnetFile = nf\<rparr>))"
proof -
  from assms(1) have ne: "weights s \<noteq> []" by (auto simp: extracted_ok_def)
  define ws where "ws = (if tt then map np_transpose (weights s) else weights s)"
  have "shape (hd ws) \<noteq> []"
    using assms(2) ne by (simp add: ws_def hd_map shape_np_transpose)
  then obtain k rest where k: "shape (hd ws) = k # rest"
    by (cases "shape (hd ws)") auto
  have ok: "extracted_ok out (cursor s) ws (biases s)"
    using assms(1) by (simp add: ws_def extracted_ok_transpose)
  have "finish f nf out tt mi ma me ra s =
      (printed s @ (if tt then [TakingTranspose] else []) @
            [Converted f, ToNNet nf, PrintMins (default_list mi k float32_min),
             PrintMaxes (default_list ma k float32_max)],
          Wrote \<lparr>w_weights = ws, w_biases = biases s,
                 w_inputMins = default_list mi k float32_min,
                 w_inputMaxes = default_list ma k float32_max,
                 w_means = default_list me (k + 1) 0,
                 w_ranges = default_list ra (k + 1) 1,
                 w_nnetFile = nf\<rparr>)"
    unfolding finish_def Let_def ws_def [symmetric] using ok k by simp
  then show ?thesis
    unfolding Let_def ws_def [symmetric] using k by simp
qed

text \<open>
  C1, as amended. After the scan the three conditions of line 140 decide between the
  two branches. When one of them fails, nothing is written: the function prints one
  diagnostic for each failed condition (with the cursor and the counts) and the line
  that no file could be written. When all three hold, the writer is called with the
  extracted weights and biases, provided the first weight has at least one axis; when
  the first weight has no axis, reading its row count raises \<open>IndexError\<close> and
  nothing is written.
\<close>

theorem finish_gate:
  "(extracted_ok out (cursor s) (weights s) (biases s) \<and> shape (hd (weights s)) \<noteq> [] \<longrightarrow>
      (case snd (finish f nf out tt mi ma me ra s) of
         Wrote c \<Rightarrow>
           w_weights c = (if tt then map np_transpose (weights s) else weights s)
           \<and> w_biases c = biases s
       | Raised e \<Rightarrow> False
       | NotWritten \<Rightarrow> False))
   \<and> (extracted_ok out (cursor s) (weights s) (biases s) \<and> shape (hd (weights s)) = [] \<longrightarrow>
        finish f nf out tt mi ma me ra s =
          (printed s @ (if tt then [TakingTranspose] else []), Raised IndexError))
   \<and> (\<not> extracted_ok out (cursor s) (weights s) (biases s) \<longrightarrow>
        finish f nf out tt mi ma me ra s =
          (printed s @ (if tt then [TakingTranspose] else []) @
             diagnostics out (cursor s) (weights s) (biases s), NotWritten))"
proof (intro conjI impI)
  assume "extracted_ok out (cursor s) (weights s) (biases s) \<and> shape (hd (weights s)) \<noteq> []"
  then show "case snd (finish f nf out tt mi ma me ra s) of
         Wrote c \<Rightarrow>
           w_weights c = (if tt then map np_transpose (weights s) else weights s)
           \<and> w_biases c = biases s
       | Raised e \<Rightarrow> False
       | NotWritten \<Rightarrow> False"
    by (simp add: finish_accepts Let_def)
next
  assume "extracted_ok out (cursor s) (weights s) (biases s) \<and> shape (hd (weights s)) = []"
  then show "finish f nf out tt mi ma me ra s =
          (printed s @ (if tt then [TakingTranspose] else []), Raised IndexError)"
    by (simp add: finish_rank0)
next
  assume "\<not> extracted_ok out (cursor s) (weights s) (biases s)"
  then show "finish f nf out tt mi ma me ra s =
          (printed s @ (if tt then [TakingTranspose] else []) @
             diagnostics out (cursor s) (weights s) (biases s), NotWritten)"
    by (rule finish_rejects)
qed

text \<open>
  The three cases on concrete states: a 2 by 3 weight with its bias
  is written; a weight without axes raises; an empty weight list at the wrong cursor
  prints all three diagnostics.
\<close>

theorem finish_gate_witness:
  "(case snd (finish ''m.onnx'' ''m.nnet'' ''Z'' False None None None None
               (ex_state ''Z'' [ex_W] [ex_B])) of
      Wrote c \<Rightarrow> w_weights c = [ex_W] \<and> w_biases c = [ex_B]
    | Raised e \<Rightarrow> False
    | NotWritten \<Rightarrow> False)
   \<and> finish ''m.onnx'' ''m.nnet'' ''Z'' False None None None None
        (ex_state ''Z'' [ex_S] [ex_B]) = ([], Raised IndexError)
   \<and> finish ''m.onnx'' ''m.nnet'' ''Z'' False None None None None
        (ex_state ''Y'' [] [ex_B]) =
        ([NameMismatch ''Z'' ''Y'', LenWeights 0, LenMismatch 0 1, CouldNotWrite], NotWritten)"
proof -
  have a: "extracted_ok ''Z'' (cursor (ex_state ''Z'' [ex_W] [ex_B]))
             (weights (ex_state ''Z'' [ex_W] [ex_B])) (biases (ex_state ''Z'' [ex_W] [ex_B]))
           \<and> shape (hd (weights (ex_state ''Z'' [ex_W] [ex_B]))) \<noteq> []"
    by (simp add: extracted_ok_def ex_state_def ex_W_def)
  have b: "extracted_ok ''Z'' (cursor (ex_state ''Z'' [ex_S] [ex_B]))
             (weights (ex_state ''Z'' [ex_S] [ex_B])) (biases (ex_state ''Z'' [ex_S] [ex_B]))
           \<and> shape (hd (weights (ex_state ''Z'' [ex_S] [ex_B]))) = []"
    by (simp add: extracted_ok_def ex_state_def ex_S_def)
  have c: "\<not> extracted_ok ''Z'' (cursor (ex_state ''Y'' [] [ex_B]))
             (weights (ex_state ''Y'' [] [ex_B])) (biases (ex_state ''Y'' [] [ex_B]))"
    by (simp add: extracted_ok_def ex_state_def)
  note g = finish_gate [where f = "''m.onnx''" and nf = "''m.nnet''" and out = "''Z''"
      and tt = False and mi = None and ma = None and me = None and ra = None]
  from g [where s = "ex_state ''Z'' [ex_W] [ex_B]"] a
  have 1: "case snd (finish ''m.onnx'' ''m.nnet'' ''Z'' False None None None None
               (ex_state ''Z'' [ex_W] [ex_B])) of
      Wrote c \<Rightarrow> w_weights c = [ex_W] \<and> w_biases c = [ex_B]
    | Raised e \<Rightarrow> False
    | NotWritten \<Rightarrow> False"
    by (auto simp: ex_state_def split: outcome.splits)
  from g [where s = "ex_state ''Z'' [ex_S] [ex_B]"] b
  have 2: "finish ''m.onnx'' ''m.nnet'' ''Z'' False None None None None
        (ex_state ''Z'' [ex_S] [ex_B]) = ([], Raised IndexError)"
    by (simp add: ex_state_def)
  from g [where s = "ex_state ''Y'' [] [ex_B]"] c
  have 3: "finish ''m.onnx'' ''m.nnet'' ''Z'' False None None None None
        (ex_state ''Y'' [] [ex_B]) =
        ([NameMismatch ''Z'' ''Y'', LenWeights 0, LenMismatch 0 1, CouldNotWrite], NotWritten)"
    by (simp add: ex_state_def diagnostics_def)
  from 1 2 3 show ?thesis by blast
qed

text \<open>
  C1 as stated fails: a MatMul whose weight initializer is a scalar (an array without
  axes) followed by an Add reaches the output name with one weight and one bias, so
  the three conditions hold, yet no layer reaches the writer: the call ends with
  \<open>IndexError\<close>.
\<close>

theorem finish_gate_counterexample:
  "scan ex_inits ''Z''
     [ex_node ''MatMul'' [''X'', ''S''] ''Y'' [], ex_node ''Add'' [''Y'', ''B''] ''Z'' []]
     (init_state ''X'') = Stop (ex_state ''Z'' [ex_S] [ex_B])
   \<and> extracted_ok ''Z'' (cursor (ex_state ''Z'' [ex_S] [ex_B]))
        (weights (ex_state ''Z'' [ex_S] [ex_B])) (biases (ex_state ''Z'' [ex_S] [ex_B]))
   \<and> onnx2nnet ''m.onnx''
        (ex_graph [ex_node ''MatMul'' [''X'', ''S''] ''Y'' [],
                   ex_node ''Add'' [''Y'', ''B''] ''Z'' []])
        None None None None [] [] [] False = ([], Raised IndexError)"
  by code_simp

section \<open>Unsupported operators\<close>

text \<open>
  C2. When the loop reaches a node whose inputs contain the cursor and whose operator
  kind is not MatMul, Add, Gemm or Relu, it prints that the kind is not supported,
  empties both accumulators and breaks; the call then writes nothing, whatever had been
  accumulated before that node.
\<close>

theorem unsupported_operator_aborts:
  assumes "resolve_name inputName (graph_input g) = Inr i"
    and "resolve_name outputName (graph_output g) = Inr out"
    and "graph_node g = pre @ n # post"
    and "scan (graph_initializer g) out pre (init_state i) = Next s"
    and "cursor s \<in> set (node_input n)"
    and "op_type n \<notin> {''MatMul'', ''Add'', ''Gemm'', ''Relu''}"
  shows "scan (graph_initializer g) out (graph_node g) (init_state i) =
           Stop (s\<lparr>weights := [], biases := [],
                   printed := printed s @ [NotSupported (op_type n)]\<rparr>)
         \<and> snd (onnx2nnet f g mi ma me ra nf inputName outputName tt) = NotWritten"
proof -
  have v: "visit (graph_initializer g) n s =
      Stop (s\<lparr>weights := [], biases := [],
              printed := printed s @ [NotSupported (op_type n)]\<rparr>)"
    using assms(6) by (simp add: visit_def)
  have sc: "scan (graph_initializer g) out (graph_node g) (init_state i) =
      Stop (s\<lparr>weights := [], biases := [],
              printed := printed s @ [NotSupported (op_type n)]\<rparr>)"
    using assms(3) by (simp add: scan_consumes [OF assms(4,5)] v)
  show ?thesis
    using sc by (simp add: onnx2nnet_resolved [OF assms(1,2)] finish_no_weights)
qed

text \<open>
  A Gemm layer followed by a Sigmoid node: the layer extracted from the Gemm node is
  dropped at the Sigmoid node and nothing is written.
\<close>

theorem unsupported_operator_aborts_witness:
  "scan ex_inits ''Z'' [ex_node ''Gemm'' [''X'', ''W'', ''B''] ''Y'' []] (init_state ''X'') =
     Next (ex_state ''Y'' [ex_W] [ex_B])
   \<and> scan ex_inits ''Z''
       [ex_node ''Gemm'' [''X'', ''W'', ''B''] ''Y'' [], ex_node ''Sigmoid'' [''Y''] ''Z'' []]
       (init_state ''X'') =
     Stop \<lparr>cursor = ''Y'', weights = [], biases = [], printed = [NotSupported ''Sigmoid'']\<rparr>
   \<and> snd (onnx2nnet ''m.onnx''
        (ex_graph [ex_node ''Gemm'' [''X'', ''W'', ''B''] ''Y'' [],
                   ex_node ''Sigmoid'' [''Y''] ''Z'' []])
        None None None None [] [] [] False) = NotWritten"
proof -
  let ?gemm = "ex_node ''Gemm'' [''X'', ''W'', ''B''] ''Y'' []"
  let ?sig = "ex_node ''Sigmoid'' [''Y''] ''Z'' []"
  let ?g = "ex_graph [?gemm, ?sig]"
  have 1: "resolve_name [] (graph_input ?g) = Inr ''X''"
    by (simp add: resolve_name_def ex_graph_def)
  have 2: "resolve_name [] (graph_output ?g) = Inr ''Z''"
    by (simp add: resolve_name_def ex_graph_def)
  have 3: "graph_node ?g = [?gemm] @ ?sig # []"
    by (simp add: ex_graph_def)
  have 4: "scan (graph_initializer ?g) ''Z'' [?gemm] (init_state ''X'') =
      Next (ex_state ''Y'' [ex_W] [ex_B])"
    by code_simp
  have 5: "cursor (ex_state ''Y'' [ex_W] [ex_B]) \<in> set (node_input ?sig)"
    by (simp add: ex_state_def ex_node_def)
  have 6: "op_type ?sig \<notin> {''MatMul'', ''Add'', ''Gemm'', ''Relu''}"
    by (simp add: ex_node_def)
  have i: "graph_initializer ?g = ex_inits" "graph_node ?g = [?gemm, ?sig]"
    by (simp_all add: ex_graph_def)
  show ?thesis
    using unsupported_operator_aborts [OF 1 2 3 4 5 6, of "''m.onnx''" None None None None "[]" False] 4
    unfolding i by (simp add: ex_state_def ex_node_def)
qed

section \<open>MatMul and Add nodes\<close>

text \<open>
  C10. A consumed MatMul node appends to the weights the array of every initializer
  whose name is the operand that is not the cursor, and leaves the biases as they are;
  a consumed Add node does the same to the biases. The number of arrays appended is the
  number of initializers of that name: none when the name is absent, several when
  several initializers share it.
\<close>

theorem matmul_add_take_every_match:
  assumes "op_type n = ''MatMul'' \<or> op_type n = ''Add''"
    and "node_input n = [a, b]"
    and "cursor s \<in> set (node_input n)"
    and "node_output n = out # outs"
    and "other = (if a = cursor s then b else a)"
  shows "(case visit inits n s of
            Next s' \<Rightarrow>
              cursor s' = out
              \<and> (op_type n = ''MatMul'' \<longrightarrow>
                   weights s' = weights s @ lookup_all inits other \<and> biases s' = biases s)
              \<and> (op_type n = ''Add'' \<longrightarrow>
                   biases s' = biases s @ lookup_all inits other \<and> weights s' = weights s)
          | Stop s' \<Rightarrow> False
          | Raise e \<Rightarrow> False)
         \<and> length (lookup_all inits other) =
             length (filter (\<lambda>i. init_name i = other) inits)"
  using assms by (auto simp: visit_def advance_def lookup_all_def)

text \<open>
  A MatMul node whose weight name \<open>D\<close> is carried by two initializers appends two
  weights, and an Add node whose bias name has no initializer appends none.
\<close>

theorem matmul_add_take_every_match_witness:
  "visit ex_inits (ex_node ''MatMul'' [''D'', ''X''] ''Y'' []) (ex_state ''X'' [] []) =
     Next (ex_state ''Y'' [ex_W, ex_B] [])
   \<and> length (lookup_all ex_inits ''D'') = 2
   \<and> visit ex_inits (ex_node ''Add'' [''X'', ''none''] ''Y'' []) (ex_state ''X'' [ex_W] []) =
     Next (ex_state ''Y'' [ex_W] [])
   \<and> length (lookup_all ex_inits ''none'') = 0"
proof -
  let ?m = "ex_node ''MatMul'' [''D'', ''X''] ''Y'' []"
  let ?a = "ex_node ''Add'' [''X'', ''none''] ''Y'' []"
  have m: "op_type ?m = ''MatMul'' \<or> op_type ?m = ''Add''"
    "node_input ?m = [''D'', ''X'']"
    "cursor (ex_state ''X'' [] []) \<in> set (node_input ?m)"
    "node_output ?m = ''Y'' # []"
    "''D'' = (if ''D'' = cursor (ex_state ''X'' [] []) then ''X'' else ''D'')"
    by (simp_all add: ex_node_def ex_state_def)
  have a: "op_type ?a = ''MatMul'' \<or> op_type ?a = ''Add''"
    "node_input ?a = [''X'', ''none'']"
    "cursor (ex_state ''X'' [ex_W] []) \<in> set (node_input ?a)"
    "node_output ?a = ''Y'' # []"
    "''none'' = (if ''X'' = cursor (ex_state ''X'' [ex_W] []) then ''none'' else ''X'')"
    by (simp_all add: ex_node_def ex_state_def)
  have fm: "length (filter (\<lambda>i. init_name i = ''D'') ex_inits) = 2"
    by (simp add: ex_inits_def)
  have fa: "length (filter (\<lambda>i. init_name i = ''none'') ex_inits) = 0"
    by (simp add: ex_inits_def)
  have vm: "visit ex_inits ?m (ex_state ''X'' [] []) = Next (ex_state ''Y'' [ex_W, ex_B] [])"
    by code_simp
  have va: "visit ex_inits ?a (ex_state ''X'' [ex_W] []) = Next (ex_state ''Y'' [ex_W] [])"
    by code_simp
  have "length (lookup_all ex_inits ''D'') = 2"
    using matmul_add_take_every_match [OF m, of ex_inits] fm by simp
  moreover have "length (lookup_all ex_inits ''none'') = 0"
    using matmul_add_take_every_match [OF a, of ex_inits] fa by simp
  ultimately show ?thesis using vm va by simp
qed

section \<open>Gemm nodes\<close>

lemma alpha_absent:
  "\<forall>a \<in> set as. attr_name a \<noteq> ''alpha'' \<Longrightarrow> alpha (foldl read_attr g as) = alpha g"
  by (induction as arbitrary: g) (auto simp: read_attr_def)

lemma beta_absent:
  "\<forall>a \<in> set as. attr_name a \<noteq> ''beta'' \<Longrightarrow> beta (foldl read_attr g as) = beta g"
  by (induction as arbitrary: g) (auto simp: read_attr_def)

lemma transA_absent:
  "\<forall>a \<in> set as. attr_name a \<noteq> ''transA'' \<Longrightarrow> transA (foldl read_attr g as) = transA g"
  by (induction as arbitrary: g) (auto simp: read_attr_def)

lemma transB_absent:
  "\<forall>a \<in> set as. attr_name a \<noteq> ''transB'' \<Longrightarrow> transB (foldl read_attr g as) = transB g"
  by (induction as arbitrary: g) (auto simp: read_attr_def)

lemma alpha_present:
  assumes "distinct (map attr_name as)" and "a \<in> set as" and "attr_name a = ''alpha''"
  shows "alpha (foldl read_attr g as) = attr_f a"
  using assms
proof (induction as arbitrary: g)
  case Nil
  then show ?case by simp
next
  case (Cons x xs)
  show ?case
  proof (cases "a = x")
    case True
    with Cons.prems have ys: "\<forall>y \<in> set xs. attr_name y \<noteq> ''alpha''" by force
    have "read_attr g x = g\<lparr>alpha := attr_f x\<rparr>"
      using True Cons.prems(3) by (simp add: read_attr_def)
    then show ?thesis
      using True ys by (simp add: alpha_absent)
  next
    case False
    with Cons show ?thesis by simp
  qed
qed

lemma transA_present:
  assumes "distinct (map attr_name as)" and "a \<in> set as" and "attr_name a = ''transA''"
  shows "transA (foldl read_attr g as) = (attr_i a \<noteq> 0)"
  using assms
proof (induction as arbitrary: g)
  case Nil
  then show ?case by simp
next
  case (Cons x xs)
  show ?case
  proof (cases "a = x")
    case True
    with Cons.prems have ys: "\<forall>y \<in> set xs. attr_name y \<noteq> ''transA''" by force
    have "read_attr g x = g\<lparr>transA := (attr_i x \<noteq> 0)\<rparr>"
      using True Cons.prems(3) by (simp add: read_attr_def)
    then show ?thesis
      using True ys by (simp add: transA_absent)
  next
    case False
    with Cons show ?thesis by simp
  qed
qed

lemma visit_Gemm:
  assumes "op_type n = ''Gemm''" and "node_input n = [x, wn, bn]"
  shows "visit inits n s =
     (case lookup_all inits wn of
        [] \<Rightarrow> Raise IndexError
      | w # _ \<Rightarrow>
          (case gemm_bias inits bn
                  (scale (alpha (read_attrs (node_attribute n)))
                     (if transA (read_attrs (node_attribute n)) then np_transpose w else w)) of
             Inl e \<Rightarrow> Raise e
           | Inr bias \<Rightarrow>
               advance n
                 (s\<lparr>weights := weights s @
                       [scale (alpha (read_attrs (node_attribute n)))
                          (if transA (read_attrs (node_attribute n)) then np_transpose w else w)],
                    biases := biases s @ [scale (beta (read_attrs (node_attribute n))) bias]\<rparr>)))"
  using assms by (simp add: visit_def Let_def split: list.splits)

lemma advance_Next:
  "advance n s = Next s' \<Longrightarrow> weights s' = weights s \<and> biases s' = biases s"
  by (auto simp: advance_def split: list.splits)

text \<open>
  C3. A consumed Gemm node whose weight name has the stored array \<open>W\<close> appends
  \<open>alpha\<close> times \<open>W\<close>, or \<open>alpha\<close> times the transpose of \<open>W\<close> when \<open>transA\<close> is set.
  The four attributes are 1, 1, false and false when the node has no attribute of that
  name; when the attribute names are distinct, \<open>alpha\<close> is the \<open>f\<close> field of the
  attribute named alpha and \<open>transA\<close> says whether the \<open>i\<close> field of the attribute
  named transA is not zero.
\<close>

theorem gemm_weight_scaled_transposed:
  assumes "op_type n = ''Gemm''"
    and "node_input n = [x, wn, bn]"
    and "lookup_all inits wn = W # Ws"
    and "visit inits n s = Next s'"
    and "ga = read_attrs (node_attribute n)"
  shows "weights s' = weights s @ [scale (alpha ga) (if transA ga then np_transpose W else W)]
     \<and> ((\<forall>a \<in> set (node_attribute n). attr_name a \<noteq> ''alpha'') \<longrightarrow> alpha ga = Finite 1)
     \<and> ((\<forall>a \<in> set (node_attribute n). attr_name a \<noteq> ''beta'') \<longrightarrow> beta ga = Finite 1)
     \<and> ((\<forall>a \<in> set (node_attribute n). attr_name a \<noteq> ''transA'') \<longrightarrow> \<not> transA ga)
     \<and> ((\<forall>a \<in> set (node_attribute n). attr_name a \<noteq> ''transB'') \<longrightarrow> \<not> transB ga)
     \<and> (\<forall>a \<in> set (node_attribute n). distinct (map attr_name (node_attribute n)) \<longrightarrow>
          (attr_name a = ''alpha'' \<longrightarrow> alpha ga = attr_f a)
          \<and> (attr_name a = ''transA'' \<longrightarrow> transA ga = (attr_i a \<noteq> 0)))"
proof -
  have "weights s' = weights s @ [scale (alpha ga) (if transA ga then np_transpose W else W)]"
    using assms(3,4) unfolding visit_Gemm [OF assms(1,2)] assms(5)
    by (auto split: sum.splits dest!: advance_Next)
  then show ?thesis
    unfolding assms(5) read_attrs_def
    by (simp add: alpha_absent beta_absent transA_absent transB_absent
        alpha_present transA_present)
qed

text \<open>
  A Gemm node with \<open>alpha = 2\<close> and \<open>transA = 1\<close> on the stored 2 by 3 array
  \<open>[[1, 2, 3], [4, 5, 6]]\<close> appends the 3 by 2 array \<open>[[2, 8], [4, 10], [6, 12]]\<close>.
\<close>

theorem gemm_weight_scaled_transposed_witness:
  "visit ex_inits
     (ex_node ''Gemm'' [''X'', ''W'', ''B''] ''Y''
        [\<lparr>attr_name = ''alpha'', attr_f = Finite 2, attr_i = 0\<rparr>,
         \<lparr>attr_name = ''transA'', attr_f = Finite 0, attr_i = 1\<rparr>]) (ex_state ''X'' [] []) =
     Next (ex_state ''Y'' [\<lparr>shape = [3, 2], elems = map Finite [2, 8, 4, 10, 6, 12]\<rparr>] [ex_B])
   \<and> scale (Finite 2) (np_transpose ex_W) = \<lparr>shape = [3, 2], elems = map Finite [2, 8, 4, 10, 6, 12]\<rparr>
   \<and> weights (ex_state ''Y'' [\<lparr>shape = [3, 2], elems = map Finite [2, 8, 4, 10, 6, 12]\<rparr>] [ex_B]) =
       weights (ex_state ''X'' [] []) @ [scale (Finite 2) (np_transpose ex_W)]
   \<and> beta (read_attrs [\<lparr>attr_name = ''alpha'', attr_f = Finite 2, attr_i = 0\<rparr>,
         \<lparr>attr_name = ''transA'', attr_f = Finite 0, attr_i = 1\<rparr>]) = Finite 1
   \<and> \<not> transB (read_attrs [\<lparr>attr_name = ''alpha'', attr_f = Finite 2, attr_i = 0\<rparr>,
         \<lparr>attr_name = ''transA'', attr_f = Finite 0, attr_i = 1\<rparr>])"
proof -
  let ?as = "[\<lparr>attr_name = ''alpha'', attr_f = Finite 2, attr_i = 0\<rparr>,
              \<lparr>attr_name = ''transA'', attr_f = Finite 0, attr_i = 1\<rparr>]"
  let ?n = "ex_node ''Gemm'' [''X'', ''W'', ''B''] ''Y'' ?as"
  let ?s' = "ex_state ''Y'' [\<lparr>shape = [3, 2], elems = map Finite [2, 8, 4, 10, 6, 12]\<rparr>] [ex_B]"
  have 1: "op_type ?n = ''Gemm''" by (simp add: ex_node_def)
  have 2: "node_input ?n = [''X'', ''W'', ''B'']" by (simp add: ex_node_def)
  have 3: "lookup_all ex_inits ''W'' = ex_W # []"
    by (simp add: lookup_all_def ex_inits_def)
  have 4: "visit ex_inits ?n (ex_state ''X'' [] []) = Next ?s'"
    by code_simp
  have 5: "scale (Finite 2) (np_transpose ex_W) = \<lparr>shape = [3, 2], elems = map Finite [2, 8, 4, 10, 6, 12]\<rparr>"
    by code_simp
  have 6: "node_attribute ?n = ?as" by (simp add: ex_node_def)
  have 7: "alpha (read_attrs ?as) = Finite 2" "transA (read_attrs ?as)"
    by (simp_all add: read_attrs_def read_attr_def)
  show ?thesis
    using gemm_weight_scaled_transposed [OF 1 2 3 4 refl] 4 5
    unfolding 6 7 by simp
qed

text \<open>
  C4, as amended. A consumed Gemm node appends one weight and one bias. When no
  initializer has the bias name, the bias has the length of the row count of the
  appended weight (the stored weight after transposition and scaling), and each of its
  elements is zero multiplied by \<open>beta\<close>: zero when \<open>beta\<close> is finite, NaN when
  \<open>beta\<close> is an infinity or NaN. When an initializer has the bias name, the bias is the
  first such array with every element multiplied by \<open>beta\<close>.
\<close>

theorem gemm_bias_zero_or_beta_scaled:
  assumes "op_type n = ''Gemm''"
    and "node_input n = [x, wn, bn]"
    and "visit inits n s = Next s'"
  shows "weights s' = weights s @ [last (weights s')]
     \<and> (bn \<notin> set (map init_name inits) \<longrightarrow>
          (case shape (last (weights s')) of
             [] \<Rightarrow> False
           | r # _ \<Rightarrow>
               biases s' = biases s @
                 [\<lparr>shape = [r],
                   elems = replicate r
                     (case beta (read_attrs (node_attribute n)) of
                        Finite c \<Rightarrow> Finite 0
                      | PosInf \<Rightarrow> NaN
                      | NegInf \<Rightarrow> NaN
                      | NaN \<Rightarrow> NaN)\<rparr>]))
     \<and> (bn \<in> set (map init_name inits) \<longrightarrow>
          (case lookup_all inits bn of
             [] \<Rightarrow> False
           | b # _ \<Rightarrow>
               biases s' = biases s @ [scale (beta (read_attrs (node_attribute n))) b]))"
proof -
  have z: "scale c (np_zeros r) =
      \<lparr>shape = [r],
       elems = replicate r
         (case c of Finite c' \<Rightarrow> Finite 0 | PosInf \<Rightarrow> NaN | NegInf \<Rightarrow> NaN | NaN \<Rightarrow> NaN)\<rparr>"
    for c r
    by (cases c) (simp_all add: scale_def np_zeros_def)
  show ?thesis
    using assms(3) unfolding visit_Gemm [OF assms(1,2)]
    by (auto simp: gemm_bias_def z split: list.splits sum.splits if_splits
        dest!: advance_Next)
qed

text \<open>
  The transposed 3 by 2 weight without a bias initializer gets a zero bias of length 3
  (\<open>beta\<close> is 1 by default); with the bias initializer \<open>[7, 8]\<close> and \<open>beta = 3\<close> the
  bias is \<open>[21, 24]\<close>.
\<close>

theorem gemm_bias_zero_or_beta_scaled_witness:
  "visit ex_inits
     (ex_node ''Gemm'' [''X'', ''W'', ''none''] ''Y''
        [\<lparr>attr_name = ''transA'', attr_f = Finite 0, attr_i = 1\<rparr>]) (ex_state ''X'' [] []) =
     Next (ex_state ''Y'' [\<lparr>shape = [3, 2], elems = map Finite [1, 4, 2, 5, 3, 6]\<rparr>]
             [\<lparr>shape = [3], elems = replicate 3 (Finite 0)\<rparr>])
   \<and> visit ex_inits
     (ex_node ''Gemm'' [''X'', ''W'', ''B''] ''Y''
        [\<lparr>attr_name = ''beta'', attr_f = Finite 3, attr_i = 0\<rparr>]) (ex_state ''X'' [] []) =
     Next (ex_state ''Y'' [ex_W] [\<lparr>shape = [2], elems = map Finite [21, 24]\<rparr>])
   \<and> ''none'' \<notin> set (map init_name ex_inits)
   \<and> scale (Finite 3) ex_B = \<lparr>shape = [2], elems = map Finite [21, 24]\<rparr>"
proof -
  let ?n0 = "ex_node ''Gemm'' [''X'', ''W'', ''none''] ''Y''
               [\<lparr>attr_name = ''transA'', attr_f = Finite 0, attr_i = 1\<rparr>]"
  let ?n1 = "ex_node ''Gemm'' [''X'', ''W'', ''B''] ''Y''
               [\<lparr>attr_name = ''beta'', attr_f = Finite 3, attr_i = 0\<rparr>]"
  let ?w0 = "\<lparr>shape = [3, 2], elems = map Finite [1, 4, 2, 5, 3, 6]\<rparr>"
  let ?s1 = "ex_state ''Y'' [ex_W] [\<lparr>shape = [2], elems = map Finite [21, 24]\<rparr>]"
  have o: "op_type ?n0 = ''Gemm''" "op_type ?n1 = ''Gemm''"
    by (simp_all add: ex_node_def)
  have i0: "node_input ?n0 = [''X'', ''W'', ''none'']" by (simp add: ex_node_def)
  have i1: "node_input ?n1 = [''X'', ''W'', ''B'']" by (simp add: ex_node_def)
  have v0: "visit ex_inits ?n0 (ex_state ''X'' [] []) =
      Next (ex_state ''Y'' [?w0] [\<lparr>shape = [3], elems = [Finite 0, Finite 0, Finite 0]\<rparr>])"
    by code_simp
  have v1: "visit ex_inits ?n1 (ex_state ''X'' [] []) = Next ?s1" by code_simp
  have a: "''none'' \<notin> set (map init_name ex_inits)" by (simp add: ex_inits_def)
  have b: "scale (Finite 3) ex_B = \<lparr>shape = [2], elems = map Finite [21, 24]\<rparr>"
    by (simp add: scale_def ex_B_def)
  have l: "lookup_all ex_inits ''B'' = [ex_B]"
    by (simp add: lookup_all_def ex_inits_def)
  have be: "beta (read_attrs (node_attribute ?n0)) = Finite 1"
    "beta (read_attrs (node_attribute ?n1)) = Finite 3"
    by (simp_all add: ex_node_def read_attrs_def read_attr_def)
  have "biases (ex_state ''Y'' [?w0] [\<lparr>shape = [3], elems = [Finite 0, Finite 0, Finite 0]\<rparr>]) =
      biases (ex_state ''X'' [] []) @ [\<lparr>shape = [3], elems = replicate 3 (Finite 0)\<rparr>]"
    using gemm_bias_zero_or_beta_scaled [OF o(1) i0 v0] a
    unfolding be by (simp add: ex_state_def)
  moreover have "biases ?s1 = biases (ex_state ''X'' [] []) @ [scale (Finite 3) ex_B]"
    using gemm_bias_zero_or_beta_scaled [OF o(2) i1 v1]
    unfolding be l by (simp add: ex_inits_def)
  ultimately show ?thesis using v0 v1 a b by (simp add: ex_state_def)
qed

text \<open>
  C4 as stated fails: with \<open>beta\<close> set to the positive infinity and no initializer of
  the bias name, the bias passed to the writer is not a zero vector; each of its
  elements is zero times infinity, which is NaN.
\<close>

theorem gemm_bias_zero_or_beta_scaled_counterexample:
  "''none'' \<notin> set (map init_name ex_inits)
   \<and> snd (onnx2nnet ''m.onnx''
       (ex_graph [ex_node ''Gemm'' [''X'', ''W'', ''none''] ''Z''
                    [\<lparr>attr_name = ''beta'', attr_f = PosInf, attr_i = 0\<rparr>]])
       None None None None [] [] [] False) =
     Wrote \<lparr>w_weights = [ex_W], w_biases = [\<lparr>shape = [2], elems = [NaN, NaN]\<rparr>],
            w_inputMins = [float32_min, float32_min],
            w_inputMaxes = [float32_max, float32_max],
            w_means = [0, 0, 0], w_ranges = [1, 1, 1], w_nnetFile = ''m.nnet''\<rparr>"
  by code_simp

text \<open>
  C5, as amended. A Gemm node on the chain whose weight name has no initializer ends the
  call with \<open>IndexError\<close>, and nothing is written. A MatMul node on the chain whose
  weight name has no initializer is consumed without any report: no weight is appended,
  the cursor moves to the output of the node, and the loop goes on (or breaks, at the
  output name).
\<close>

theorem missing_weight_initializer:
  assumes "resolve_name inputName (graph_input g) = Inr i"
    and "resolve_name outputName (graph_output g) = Inr out"
    and "graph_node g = pre @ n # post"
    and "scan (graph_initializer g) out pre (init_state i) = Next s"
    and "cursor s \<in> set (node_input n)"
  shows "(op_type n = ''Gemm'' \<and> node_input n = [x, wn, bn]
          \<and> wn \<notin> set (map init_name (graph_initializer g)) \<longrightarrow>
            onnx2nnet f g mi ma me ra nf inputName outputName tt = ([], Raised IndexError))
     \<and> (op_type n = ''MatMul'' \<and> node_input n = [a, b] \<and> node_output n = out' # outs
          \<and> (if a = cursor s then b else a) \<notin> set (map init_name (graph_initializer g)) \<longrightarrow>
            visit (graph_initializer g) n s = Next (s\<lparr>cursor := out'\<rparr>)
            \<and> scan (graph_initializer g) out (graph_node g) (init_state i) =
                (if out = out' then Stop (s\<lparr>cursor := out'\<rparr>)
                 else scan (graph_initializer g) out post (s\<lparr>cursor := out'\<rparr>)))"
proof (rule conjI; rule impI)
  assume h: "op_type n = ''Gemm'' \<and> node_input n = [x, wn, bn]
          \<and> wn \<notin> set (map init_name (graph_initializer g))"
  then have "lookup_all (graph_initializer g) wn = []"
    by (simp only: lookup_all_Nil simp_thms)
  with h have "visit (graph_initializer g) n s = Raise IndexError"
    by (simp add: visit_Gemm)
  then have "scan (graph_initializer g) out (graph_node g) (init_state i) = Raise IndexError"
    unfolding assms(3) by (simp add: scan_consumes [OF assms(4,5)])
  then show "onnx2nnet f g mi ma me ra nf inputName outputName tt = ([], Raised IndexError)"
    by (simp add: onnx2nnet_resolved [OF assms(1,2)])
next
  assume h: "op_type n = ''MatMul'' \<and> node_input n = [a, b] \<and> node_output n = out' # outs
          \<and> (if a = cursor s then b else a) \<notin> set (map init_name (graph_initializer g))"
  then have "lookup_all (graph_initializer g) (if a = cursor s then b else a) = []"
    by (simp only: lookup_all_Nil simp_thms)
  with h have v: "visit (graph_initializer g) n s = Next (s\<lparr>cursor := out'\<rparr>)"
    by (auto simp: visit_def advance_def)
  have "scan (graph_initializer g) out (graph_node g) (init_state i) =
                (if out = out' then Stop (s\<lparr>cursor := out'\<rparr>)
                 else scan (graph_initializer g) out post (s\<lparr>cursor := out'\<rparr>))"
    unfolding assms(3) by (simp add: scan_consumes [OF assms(4,5)] v)
  with v show "visit (graph_initializer g) n s = Next (s\<lparr>cursor := out'\<rparr>)
            \<and> scan (graph_initializer g) out (graph_node g) (init_state i) =
                (if out = out' then Stop (s\<lparr>cursor := out'\<rparr>)
                 else scan (graph_initializer g) out post (s\<lparr>cursor := out'\<rparr>))"
    by simp
qed

text \<open>
  With the weight name \<open>M\<close>, which no initializer carries: a Gemm node raises, and a
  MatMul node only moves the cursor from \<open>X\<close> to \<open>Y\<close>.
\<close>

theorem missing_weight_initializer_witness:
  "onnx2nnet ''m.onnx'' (ex_graph [ex_node ''Gemm'' [''X'', ''M'', ''B''] ''Z'' []])
     None None None None [] [] [] False = ([], Raised IndexError)
   \<and> visit ex_inits (ex_node ''MatMul'' [''X'', ''M''] ''Y'' []) (init_state ''X'') =
       Next (ex_state ''Y'' [] [])
   \<and> scan ex_inits ''Z'' [ex_node ''MatMul'' [''X'', ''M''] ''Y'' []] (init_state ''X'') =
       Next (ex_state ''Y'' [] [])"
proof -
  let ?gn = "ex_node ''Gemm'' [''X'', ''M'', ''B''] ''Z'' []"
  let ?mn = "ex_node ''MatMul'' [''X'', ''M''] ''Y'' []"
  have r: "resolve_name [] (graph_input (ex_graph ns)) = Inr ''X''"
    "resolve_name [] (graph_output (ex_graph ns)) = Inr ''Z''" for ns
    by (simp_all add: resolve_name_def ex_graph_def)
  have n: "graph_node (ex_graph [m]) = [] @ m # []" for m
    by (simp add: ex_graph_def)
  have s: "scan (graph_initializer (ex_graph ns)) ''Z'' [] (init_state ''X'') =
      Next (init_state ''X'')" for ns
    by simp
  have c: "cursor (init_state ''X'') \<in> set (node_input ?gn)"
    "cursor (init_state ''X'') \<in> set (node_input ?mn)"
    by (simp_all add: init_state_def ex_node_def)
  have hg: "op_type ?gn = ''Gemm'' \<and> node_input ?gn = [''X'', ''M'', ''B'']
      \<and> ''M'' \<notin> set (map init_name (graph_initializer (ex_graph [?gn])))"
    by (simp add: ex_node_def ex_graph_def ex_inits_def)
  have hm: "op_type ?mn = ''MatMul'' \<and> node_input ?mn = [''X'', ''M'']
      \<and> node_output ?mn = ''Y'' # []
      \<and> (if ''X'' = cursor (init_state ''X'') then ''M'' else ''X'')
          \<notin> set (map init_name (graph_initializer (ex_graph [?mn])))"
    by (simp add: ex_node_def ex_graph_def ex_inits_def init_state_def)
  have gi: "graph_initializer (ex_graph ns) = ex_inits" "graph_node (ex_graph ns) = ns" for ns
    by (simp_all add: ex_graph_def)
  have e: "init_state ''X''\<lparr>cursor := ''Y''\<rparr> = ex_state ''Y'' [] []"
    by (simp add: init_state_def ex_state_def)
  from missing_weight_initializer [OF r n s c(1), THEN conjunct1, rule_format, OF hg]
  have 1: "onnx2nnet ''m.onnx'' (ex_graph [?gn]) None None None None [] [] [] False =
      ([], Raised IndexError)" .
  from missing_weight_initializer [OF r n s c(2), THEN conjunct2, rule_format, OF hm]
  have 2: "visit ex_inits ?mn (init_state ''X'') = Next (ex_state ''Y'' [] [])
     \<and> scan ex_inits ''Z'' [?mn] (init_state ''X'') = Next (ex_state ''Y'' [] [])"
    unfolding gi e by simp
  from 1 2 show ?thesis by simp
qed

text \<open>
  C5 as stated fails: the MatMul node names the weight \<open>M\<close>, which no initializer
  carries, and yet the call does not fail; the file is written with the one layer of
  the Gemm node that follows.
\<close>

theorem missing_weight_initializer_counterexample:
  "''M'' \<notin> set (map init_name ex_inits)
   \<and> onnx2nnet ''m.onnx''
       (ex_graph [ex_node ''MatMul'' [''X'', ''M''] ''Y'' [],
                  ex_node ''Gemm'' [''Y'', ''W'', ''B''] ''Z'' []])
       None None None None [] [] [] False =
     ([Converted ''m.onnx'', ToNNet ''m.nnet'',
       PrintMins [float32_min, float32_min], PrintMaxes [float32_max, float32_max]],
      Wrote \<lparr>w_weights = [ex_W], w_biases = [ex_B],
             w_inputMins = [float32_min, float32_min],
             w_inputMaxes = [float32_max, float32_max],
             w_means = [0, 0, 0], w_ranges = [1, 1, 1], w_nnetFile = ''m.nnet''\<rparr>)"
  by code_simp

section \<open>Replacing nodes by nodes that behave alike\<close>

lemma scan_cong:
  assumes "list_all2
     (\<lambda>n n'. \<forall>s. (cursor s \<in> set (node_input n')) = (cursor s \<in> set (node_input n))
                 \<and> (cursor s \<in> set (node_input n) \<longrightarrow> visit inits n' s = visit inits n s))
     ns ns'"
  shows "scan inits out ns' s = scan inits out ns s"
  using assms
proof (induction ns ns' arbitrary: s rule: list_all2_induct)
  case Nil
  show ?case by simp
next
  case (Cons n ns n' ns')
  show ?case
  proof (cases "cursor s \<in> set (node_input n)")
    case True
    with Cons.hyps(1) have "cursor s \<in> set (node_input n')"
      and "visit inits n' s = visit inits n s"
      by simp_all
    with True show ?thesis
      by (simp add: Cons.IH split: flow.splits)
  next
    case False
    with Cons.hyps(1) have "cursor s \<notin> set (node_input n')" by simp
    with False show ?thesis by (simp add: Cons.IH)
  qed
qed

lemma onnx2nnet_cong:
  assumes "\<And>out s. scan (graph_initializer g) out ns' s =
                    scan (graph_initializer g) out (graph_node g) s"
  shows "onnx2nnet f (g\<lparr>graph_node := ns'\<rparr>) mi ma me ra nf inputName outputName tt =
         onnx2nnet f g mi ma me ra nf inputName outputName tt"
  by (simp add: onnx2nnet_def Let_def assms split: sum.splits)

subsection \<open>The transB attribute\<close>

lemma read_attr_same:
  assumes "same_but_transB_attr a a'"
    and "alpha g' = alpha g \<and> beta g' = beta g \<and> transA g' = transA g"
  shows "alpha (read_attr g' a') = alpha (read_attr g a)
       \<and> beta (read_attr g' a') = beta (read_attr g a)
       \<and> transA (read_attr g' a') = transA (read_attr g a)"
  using assms by (auto simp: same_but_transB_attr_def read_attr_def split: if_splits)

lemma foldl_read_attr_same:
  assumes "list_all2 same_but_transB_attr as as'"
    and "alpha g' = alpha g \<and> beta g' = beta g \<and> transA g' = transA g"
  shows "alpha (foldl read_attr g' as') = alpha (foldl read_attr g as)
       \<and> beta (foldl read_attr g' as') = beta (foldl read_attr g as)
       \<and> transA (foldl read_attr g' as') = transA (foldl read_attr g as)"
  using assms
proof (induction as as' arbitrary: g g' rule: list_all2_induct)
  case Nil
  then show ?case by simp
next
  case (Cons a as a' as')
  from read_attr_same [OF Cons.hyps(1) Cons.prems]
  show ?case by (simp add: Cons.IH)
qed

lemma visit_same_but_transB:
  assumes "same_but_transB n n'"
  shows "visit inits n' s = visit inits n s"
proof -
  from assms have l: "list_all2 same_but_transB_attr (node_attribute n) (node_attribute n')"
    by (simp add: same_but_transB_def)
  have r: "alpha (read_attrs (node_attribute n')) = alpha (read_attrs (node_attribute n))"
    "beta (read_attrs (node_attribute n')) = beta (read_attrs (node_attribute n))"
    "transA (read_attrs (node_attribute n')) = transA (read_attrs (node_attribute n))"
    using foldl_read_attr_same [OF l, of _ "\<lparr>alpha = Finite 1, beta = Finite 1, transA = False, transB = False\<rparr>"]
    by (simp_all add: read_attrs_def)
  have e: "op_type n' = op_type n" "node_input n' = node_input n"
    "node_output n' = node_output n"
    using assms by (simp_all add: same_but_transB_def)
  show ?thesis
    by (simp add: visit_def advance_def Let_def e r split: list.splits sum.splits)
qed

text \<open>
  C6. When the nodes of two graphs agree in everything but the payloads of their
  transB attributes, the two calls print the same lines and end in the same way, with
  the same layers passed to the writer.
\<close>

theorem transB_is_ignored:
  assumes "list_all2 same_but_transB (graph_node g) ns'"
  shows "onnx2nnet f (g\<lparr>graph_node := ns'\<rparr>) mi ma me ra nf inputName outputName tt =
         onnx2nnet f g mi ma me ra nf inputName outputName tt"
proof (rule onnx2nnet_cong)
  fix out s
  have "list_all2
     (\<lambda>n n'. \<forall>s. (cursor s \<in> set (node_input n')) = (cursor s \<in> set (node_input n))
                 \<and> (cursor s \<in> set (node_input n) \<longrightarrow>
                      visit (graph_initializer g) n' s = visit (graph_initializer g) n s))
     (graph_node g) ns'"
    using assms
    by (rule list_all2_mono) (simp add: visit_same_but_transB, simp add: same_but_transB_def)
  then show "scan (graph_initializer g) out ns' s =
             scan (graph_initializer g) out (graph_node g) s"
    by (rule scan_cong)
qed

text \<open>
  The same Gemm node with transB 0 and with transB 1: the attribute loop reads two
  different values, and the two calls give the same result.
\<close>

theorem transB_is_ignored_witness:
  "transB (read_attrs [\<lparr>attr_name = ''transB'', attr_f = Finite 0, attr_i = 1\<rparr>])
     \<noteq> transB (read_attrs [\<lparr>attr_name = ''transB'', attr_f = Finite 0, attr_i = 0\<rparr>])
   \<and> onnx2nnet ''m.onnx''
       (ex_graph [ex_node ''Gemm'' [''X'', ''W'', ''B''] ''Z''
                    [\<lparr>attr_name = ''transB'', attr_f = Finite 0, attr_i = 1\<rparr>]])
       None None None None [] [] [] False =
     onnx2nnet ''m.onnx''
       (ex_graph [ex_node ''Gemm'' [''X'', ''W'', ''B''] ''Z''
                    [\<lparr>attr_name = ''transB'', attr_f = Finite 0, attr_i = 0\<rparr>]])
       None None None None [] [] [] False"
proof -
  let ?n0 = "ex_node ''Gemm'' [''X'', ''W'', ''B''] ''Z''
               [\<lparr>attr_name = ''transB'', attr_f = Finite 0, attr_i = 0\<rparr>]"
  let ?n1 = "ex_node ''Gemm'' [''X'', ''W'', ''B''] ''Z''
               [\<lparr>attr_name = ''transB'', attr_f = Finite 0, attr_i = 1\<rparr>]"
  have h: "list_all2 same_but_transB (graph_node (ex_graph [?n0])) [?n1]"
    by (simp add: ex_graph_def ex_node_def same_but_transB_def same_but_transB_attr_def)
  have g: "(ex_graph [?n0])\<lparr>graph_node := [?n1]\<rparr> = ex_graph [?n1]"
    by (simp add: ex_graph_def)
  have t: "transB (read_attrs [\<lparr>attr_name = ''transB'', attr_f = Finite 0, attr_i = 1\<rparr>])
     \<noteq> transB (read_attrs [\<lparr>attr_name = ''transB'', attr_f = Finite 0, attr_i = 0\<rparr>])"
    by (simp add: read_attrs_def read_attr_def)
  show ?thesis
    using transB_is_ignored [OF h, of "''m.onnx''" None None None None "[]" "[]" "[]" False] t
    unfolding g by simp
qed

subsection \<open>The order of the two operands\<close>

lemma visit_swapped:
  assumes "op_type n = ''MatMul'' \<or> op_type n = ''Add''"
    and "node_input n = [a, b]"
    and "cursor s \<in> set (node_input n)"
  shows "visit inits (n\<lparr>node_input := [b, a]\<rparr>) s = visit inits n s"
  using assms by (auto simp: visit_def advance_def split: list.splits)

text \<open>
  C7. Swapping the two operands of a MatMul or Add node of a graph changes nothing: the
  two calls print the same lines and end in the same way, with the same layers passed
  to the writer.
\<close>

theorem operand_order_is_irrelevant:
  assumes "op_type n = ''MatMul'' \<or> op_type n = ''Add''"
    and "node_input n = [a, b]"
    and "graph_node g = pre @ n # post"
  shows "onnx2nnet f (g\<lparr>graph_node := pre @ n\<lparr>node_input := [b, a]\<rparr> # post\<rparr>)
           mi ma me ra nf inputName outputName tt =
         onnx2nnet f g mi ma me ra nf inputName outputName tt"
proof (rule onnx2nnet_cong)
  fix out s
  let ?R = "\<lambda>n n'. \<forall>s. (cursor s \<in> set (node_input n')) = (cursor s \<in> set (node_input n))
                 \<and> (cursor s \<in> set (node_input n) \<longrightarrow>
                      visit (graph_initializer g) n' s = visit (graph_initializer g) n s)"
  have refl: "list_all2 ?R ns ns" for ns
    by (simp add: list_all2_refl)
  have "?R n (n\<lparr>node_input := [b, a]\<rparr>)"
    using visit_swapped [OF assms(1,2)] assms(2) by auto
  then have "list_all2 ?R (pre @ n # post) (pre @ n\<lparr>node_input := [b, a]\<rparr> # post)"
    using refl by (intro list_all2_appendI list_all2_Cons [THEN iffD2] conjI)
  then show "scan (graph_initializer g) out (pre @ n\<lparr>node_input := [b, a]\<rparr> # post) s =
             scan (graph_initializer g) out (graph_node g) s"
    unfolding assms(3) by (rule scan_cong)
qed

text \<open>
  A MatMul and an Add node, each written with the cursor first and with the cursor
  last: the result is the same, a file with the one layer \<open>(W, B)\<close>.
\<close>

theorem operand_order_is_irrelevant_witness:
  "onnx2nnet ''m.onnx''
     (ex_graph [ex_node ''MatMul'' [''W'', ''X''] ''Y'' [],
                ex_node ''Add'' [''Y'', ''B''] ''Z'' []])
     None None None None [] [] [] False =
   onnx2nnet ''m.onnx''
     (ex_graph [ex_node ''MatMul'' [''X'', ''W''] ''Y'' [],
                ex_node ''Add'' [''Y'', ''B''] ''Z'' []])
     None None None None [] [] [] False
   \<and> onnx2nnet ''m.onnx''
     (ex_graph [ex_node ''MatMul'' [''X'', ''W''] ''Y'' [],
                ex_node ''Add'' [''B'', ''Y''] ''Z'' []])
     None None None None [] [] [] False =
   onnx2nnet ''m.onnx''
     (ex_graph [ex_node ''MatMul'' [''X'', ''W''] ''Y'' [],
                ex_node ''Add'' [''Y'', ''B''] ''Z'' []])
     None None None None [] [] [] False
   \<and> snd (onnx2nnet ''m.onnx''
     (ex_graph [ex_node ''MatMul'' [''X'', ''W''] ''Y'' [],
                ex_node ''Add'' [''Y'', ''B''] ''Z'' []])
     None None None None [] [] [] False) =
     Wrote \<lparr>w_weights = [ex_W], w_biases = [ex_B],
            w_inputMins = [float32_min, float32_min],
            w_inputMaxes = [float32_max, float32_max],
            w_means = [0, 0, 0], w_ranges = [1, 1, 1], w_nnetFile = ''m.nnet''\<rparr>"
proof -
  let ?m = "ex_node ''MatMul'' [''X'', ''W''] ''Y'' []"
  let ?a = "ex_node ''Add'' [''Y'', ''B''] ''Z'' []"
  have m: "op_type ?m = ''MatMul'' \<or> op_type ?m = ''Add''" "node_input ?m = [''X'', ''W'']"
    "graph_node (ex_graph [?m, ?a]) = [] @ ?m # [?a]"
    by (simp_all add: ex_node_def ex_graph_def)
  have a: "op_type ?a = ''MatMul'' \<or> op_type ?a = ''Add''" "node_input ?a = [''Y'', ''B'']"
    "graph_node (ex_graph [?m, ?a]) = [?m] @ ?a # []"
    by (simp_all add: ex_node_def ex_graph_def)
  have g: "(ex_graph [?m, ?a])\<lparr>graph_node := [] @ ?m\<lparr>node_input := [''W'', ''X'']\<rparr> # [?a]\<rparr> =
      ex_graph [ex_node ''MatMul'' [''W'', ''X''] ''Y'' [], ?a]"
    "(ex_graph [?m, ?a])\<lparr>graph_node := [?m] @ ?a\<lparr>node_input := [''B'', ''Y'']\<rparr> # []\<rparr> =
      ex_graph [?m, ex_node ''Add'' [''B'', ''Y''] ''Z'' []]"
    by (simp_all add: ex_graph_def ex_node_def)
  have w: "snd (onnx2nnet ''m.onnx'' (ex_graph [?m, ?a]) None None None None [] [] [] False) =
     Wrote \<lparr>w_weights = [ex_W], w_biases = [ex_B],
            w_inputMins = [float32_min, float32_min],
            w_inputMaxes = [float32_max, float32_max],
            w_means = [0, 0, 0], w_ranges = [1, 1, 1], w_nnetFile = ''m.nnet''\<rparr>"
    by code_simp
  show ?thesis
    using operand_order_is_irrelevant [OF m, of "''m.onnx''" None None None None "[]" "[]" "[]" False]
      operand_order_is_irrelevant [OF a, of "''m.onnx''" None None None None "[]" "[]" "[]" False]
      w
    unfolding g by simp
qed

section \<open>Default bounds and normalization\<close>

lemma finish_Wrote:
  assumes "finish f nf out tt mi ma me ra s = (lg, Wrote c)"
  shows "weights s \<noteq> []"
    and "shape (hd (w_weights c)) \<noteq> []"
    and "c = \<lparr>w_weights = (if tt then map np_transpose (weights s) else weights s),
              w_biases = biases s,
              w_inputMins = default_list mi (hd (shape (hd (w_weights c)))) float32_min,
              w_inputMaxes = default_list ma (hd (shape (hd (w_weights c)))) float32_max,
              w_means = default_list me (hd (shape (hd (w_weights c))) + 1) 0,
              w_ranges = default_list ra (hd (shape (hd (w_weights c))) + 1) 1,
              w_nnetFile = nf\<rparr>"
proof -
  have ok: "extracted_ok out (cursor s) (weights s) (biases s)"
    using assms finish_rejects [of out s f nf tt mi ma me ra] by auto
  then show ne: "weights s \<noteq> []" by (auto simp: extracted_ok_def)
  have r: "shape (hd (weights s)) \<noteq> []"
    using assms finish_rank0 [OF ok, of f nf tt mi ma me ra] by auto
  have c: "c = \<lparr>w_weights = (if tt then map np_transpose (weights s) else weights s),
              w_biases = biases s,
              w_inputMins = default_list mi
                (hd (shape (hd (if tt then map np_transpose (weights s) else weights s))))
                float32_min,
              w_inputMaxes = default_list ma
                (hd (shape (hd (if tt then map np_transpose (weights s) else weights s))))
                float32_max,
              w_means = default_list me
                (hd (shape (hd (if tt then map np_transpose (weights s) else weights s))) + 1) 0,
              w_ranges = default_list ra
                (hd (shape (hd (if tt then map np_transpose (weights s) else weights s))) + 1) 1,
              w_nnetFile = nf\<rparr>"
    using assms unfolding finish_accepts [OF ok r] Let_def by simp
  then have w: "w_weights c = (if tt then map np_transpose (weights s) else weights s)"
    by simp
  show "shape (hd (w_weights c)) \<noteq> []"
    unfolding w using r ne by (simp add: hd_map shape_np_transpose)
  show "c = \<lparr>w_weights = (if tt then map np_transpose (weights s) else weights s),
              w_biases = biases s,
              w_inputMins = default_list mi (hd (shape (hd (w_weights c)))) float32_min,
              w_inputMaxes = default_list ma (hd (shape (hd (w_weights c)))) float32_max,
              w_means = default_list me (hd (shape (hd (w_weights c))) + 1) 0,
              w_ranges = default_list ra (hd (shape (hd (w_weights c))) + 1) 1,
              w_nnetFile = nf\<rparr>"
    unfolding w by (rule c)
qed

lemma onnx2nnet_Wrote:
  assumes "onnx2nnet f g mi ma me ra nf inputName outputName tt = (lg, Wrote c)"
  shows "\<exists>nf' out s. finish f nf' out tt mi ma me ra s = (lg, Wrote c)"
  using assms
  by (auto simp: onnx2nnet_def Let_def split: sum.splits flow.splits if_splits)

text \<open>
  C8. When a call without bounds and normalization arrays reaches the writer, the first
  weight passed to it has a row count \<open>k\<close>, the input minima are \<open>k\<close> copies of the
  most-negative float32, the input maxima are \<open>k\<close> copies of the most-positive float32,
  and the means and ranges are \<open>k + 1\<close> copies of 0 and of 1.
\<close>

theorem default_bounds_and_normalization:
  assumes "onnx2nnet f g None None None None nf inputName outputName tt = (lg, Wrote c)"
    and "k = hd (shape (hd (w_weights c)))"
  shows "w_weights c \<noteq> [] \<and> shape (hd (w_weights c)) \<noteq> []
     \<and> w_inputMins c = replicate k float32_min
     \<and> w_inputMaxes c = replicate k float32_max
     \<and> w_means c = replicate (k + 1) 0
     \<and> w_ranges c = replicate (k + 1) 1
     \<and> float32_max = 340282346638528859811704183484516925440
     \<and> float32_min = - 340282346638528859811704183484516925440"
proof -
  from onnx2nnet_Wrote [OF assms(1)] obtain nf' out s
    where fin: "finish f nf' out tt None None None None s = (lg, Wrote c)"
    by blast
  note w = finish_Wrote [OF fin]
  have ne: "w_weights c \<noteq> []"
    using w(1) by (subst w(3)) simp
  have mins: "w_inputMins c = replicate k float32_min"
    by (subst w(3)) (simp add: default_list_def assms(2))
  have maxes: "w_inputMaxes c = replicate k float32_max"
    by (subst w(3)) (simp add: default_list_def assms(2))
  have means: "w_means c = replicate (k + 1) 0"
    by (subst w(3)) (simp add: default_list_def assms(2))
  have ranges: "w_ranges c = replicate (k + 1) 1"
    by (subst w(3)) (simp add: default_list_def assms(2))
  have fmax: "float32_max = 340282346638528859811704183484516925440"
    by (simp add: float32_max_def)
  have fmin: "float32_min = - 340282346638528859811704183484516925440"
    by (simp add: float32_min_def fmax)
  from ne w(2) mins maxes means ranges fmax fmin show ?thesis by blast
qed

text \<open>
  A Gemm node with \<open>transA\<close> on the stored 2 by 3 weight: the extracted weight has 3
  rows, so there are 3 minima and maxima and 4 means and ranges.
\<close>

theorem default_bounds_and_normalization_witness:
  "onnx2nnet ''m.onnx''
     (ex_graph [ex_node ''Gemm'' [''X'', ''W'', ''none''] ''Z''
                  [\<lparr>attr_name = ''transA'', attr_f = Finite 0, attr_i = 1\<rparr>]])
     None None None None [] [] [] False =
   ([Converted ''m.onnx'', ToNNet ''m.nnet'',
     PrintMins [float32_min, float32_min, float32_min],
     PrintMaxes [float32_max, float32_max, float32_max]],
    Wrote \<lparr>w_weights = [\<lparr>shape = [3, 2], elems = map Finite [1, 4, 2, 5, 3, 6]\<rparr>],
           w_biases = [\<lparr>shape = [3], elems = map Finite [0, 0, 0]\<rparr>],
           w_inputMins = replicate 3 float32_min,
           w_inputMaxes = replicate 3 float32_max,
           w_means = replicate (3 + 1) 0,
           w_ranges = replicate (3 + 1) 1,
           w_nnetFile = ''m.nnet''\<rparr>)"
proof -
  let ?g = "ex_graph [ex_node ''Gemm'' [''X'', ''W'', ''none''] ''Z''
                  [\<lparr>attr_name = ''transA'', attr_f = Finite 0, attr_i = 1\<rparr>]]"
  let ?c = "\<lparr>w_weights = [\<lparr>shape = [3, 2], elems = map Finite [1, 4, 2, 5, 3, 6]\<rparr>],
           w_biases = [\<lparr>shape = [3], elems = map Finite [0, 0, 0]\<rparr>],
           w_inputMins = [float32_min, float32_min, float32_min],
           w_inputMaxes = [float32_max, float32_max, float32_max],
           w_means = [0, 0, 0, 0],
           w_ranges = [1, 1, 1, 1],
           w_nnetFile = ''m.nnet''\<rparr>"
  have run: "onnx2nnet ''m.onnx'' ?g None None None None [] [] [] False =
     ([Converted ''m.onnx'', ToNNet ''m.nnet'',
       PrintMins [float32_min, float32_min, float32_min],
       PrintMaxes [float32_max, float32_max, float32_max]], Wrote ?c)"
    by code_simp
  have k: "(3::nat) = hd (shape (hd (w_weights ?c)))"
    by simp
  from default_bounds_and_normalization [OF run k]
  have "w_inputMins ?c = replicate 3 float32_min
     \<and> w_inputMaxes ?c = replicate 3 float32_max
     \<and> w_means ?c = replicate (3 + 1) 0
     \<and> w_ranges ?c = replicate (3 + 1) 1"
    by blast
  then have "?c = \<lparr>w_weights = [\<lparr>shape = [3, 2], elems = map Finite [1, 4, 2, 5, 3, 6]\<rparr>],
           w_biases = [\<lparr>shape = [3], elems = map Finite [0, 0, 0]\<rparr>],
           w_inputMins = replicate 3 float32_min,
           w_inputMaxes = replicate 3 float32_max,
           w_means = replicate (3 + 1) 0,
           w_ranges = replicate (3 + 1) 1,
           w_nnetFile = ''m.nnet''\<rparr>"
    by simp
  with run show ?thesis by simp
qed

section \<open>Omitted tensor names\<close>

text \<open>
  C9. When the input name is omitted and the graph declares more than one input, the
  \<^verbatim>\<open>assert\<close> fails and the call ends with \<open>AssertionError\<close> before anything is
  scanned or printed; the same holds for the output name and the declared outputs. When
  exactly one tensor is declared, the omitted name is that tensor's name, and the call
  behaves as if that name had been given.
\<close>

theorem omitted_names:
  "(inputName = [] \<and> 1 < length (graph_input g) \<longrightarrow>
      resolve_name inputName (graph_input g) = Inl AssertionError
      \<and> onnx2nnet f g mi ma me ra nf inputName outputName tt = ([], Raised AssertionError))
   \<and> (outputName = [] \<and> 1 < length (graph_output g) \<longrightarrow>
      resolve_name outputName (graph_output g) = Inl AssertionError
      \<and> onnx2nnet f g mi ma me ra nf inputName outputName tt = ([], Raised AssertionError))
   \<and> (graph_input g = [x] \<longrightarrow>
      resolve_name [] (graph_input g) = Inr x
      \<and> onnx2nnet f g mi ma me ra nf [] outputName tt =
        onnx2nnet f g mi ma me ra nf x outputName tt)
   \<and> (graph_output g = [y] \<longrightarrow>
      resolve_name [] (graph_output g) = Inr y
      \<and> onnx2nnet f g mi ma me ra nf inputName [] tt =
        onnx2nnet f g mi ma me ra nf inputName y tt)"
proof (intro conjI impI)
  assume "inputName = [] \<and> 1 < length (graph_input g)"
  then show "resolve_name inputName (graph_input g) = Inl AssertionError"
    and "onnx2nnet f g mi ma me ra nf inputName outputName tt = ([], Raised AssertionError)"
    by (simp_all add: onnx2nnet_def resolve_name_def Let_def)
next
  assume "outputName = [] \<and> 1 < length (graph_output g)"
  then show "resolve_name outputName (graph_output g) = Inl AssertionError"
    and "onnx2nnet f g mi ma me ra nf inputName outputName tt = ([], Raised AssertionError)"
    by (simp_all add: onnx2nnet_def resolve_name_def Let_def split: sum.splits)
next
  assume "graph_input g = [x]"
  then show "resolve_name [] (graph_input g) = Inr x"
    and "onnx2nnet f g mi ma me ra nf [] outputName tt =
         onnx2nnet f g mi ma me ra nf x outputName tt"
    by (auto simp: onnx2nnet_def resolve_name_def Let_def split: sum.splits flow.splits)
next
  assume "graph_output g = [y]"
  then show "resolve_name [] (graph_output g) = Inr y"
    and "onnx2nnet f g mi ma me ra nf inputName [] tt =
         onnx2nnet f g mi ma me ra nf inputName y tt"
    by (auto simp: onnx2nnet_def resolve_name_def Let_def split: sum.splits flow.splits)
qed

text \<open>
  A graph with the inputs \<open>X\<close> and \<open>X2\<close>, and one with the outputs \<open>Z\<close> and \<open>Z2\<close>,
  called without names; and the graph with the only input \<open>X\<close> and the only output
  \<open>Z\<close>, called without names and with them.
\<close>

theorem omitted_names_witness:
  "onnx2nnet ''m.onnx''
     ((ex_graph [ex_node ''Gemm'' [''X'', ''W'', ''B''] ''Z'' []])\<lparr>graph_input := [''X'', ''X2'']\<rparr>)
     None None None None [] [] ''Z'' False = ([], Raised AssertionError)
   \<and> onnx2nnet ''m.onnx''
     ((ex_graph [ex_node ''Gemm'' [''X'', ''W'', ''B''] ''Z'' []])\<lparr>graph_output := [''Z'', ''Z2'']\<rparr>)
     None None None None [] ''X'' [] False = ([], Raised AssertionError)
   \<and> onnx2nnet ''m.onnx'' (ex_graph [ex_node ''Gemm'' [''X'', ''W'', ''B''] ''Z'' []])
       None None None None [] [] ''Z'' False =
     onnx2nnet ''m.onnx'' (ex_graph [ex_node ''Gemm'' [''X'', ''W'', ''B''] ''Z'' []])
       None None None None [] ''X'' ''Z'' False
   \<and> onnx2nnet ''m.onnx'' (ex_graph [ex_node ''Gemm'' [''X'', ''W'', ''B''] ''Z'' []])
       None None None None [] ''X'' [] False =
     onnx2nnet ''m.onnx'' (ex_graph [ex_node ''Gemm'' [''X'', ''W'', ''B''] ''Z'' []])
       None None None None [] ''X'' ''Z'' False"
proof -
  let ?g = "ex_graph [ex_node ''Gemm'' [''X'', ''W'', ''B''] ''Z'' []]"
  have a: "[] = ([]::string) \<and> 1 < length (graph_input (?g\<lparr>graph_input := [''X'', ''X2'']\<rparr>))"
    by simp
  have b: "[] = ([]::string) \<and> 1 < length (graph_output (?g\<lparr>graph_output := [''Z'', ''Z2'']\<rparr>))"
    by simp
  have c: "graph_input ?g = [''X'']" and d: "graph_output ?g = [''Z'']"
    by (simp_all add: ex_graph_def)
  note t = omitted_names [where f = "''m.onnx''" and mi = None and ma = None and me = None
      and ra = None and nf = "[]" and tt = False]
  from t [where g = "?g\<lparr>graph_input := [''X'', ''X2'']\<rparr>" and inputName = "[]"
      and outputName = "''Z''"] a
  have 1: "onnx2nnet ''m.onnx'' (?g\<lparr>graph_input := [''X'', ''X2'']\<rparr>)
     None None None None [] [] ''Z'' False = ([], Raised AssertionError)"
    by blast
  from t [where g = "?g\<lparr>graph_output := [''Z'', ''Z2'']\<rparr>" and inputName = "''X''"
      and outputName = "[]"] b
  have 2: "onnx2nnet ''m.onnx'' (?g\<lparr>graph_output := [''Z'', ''Z2'']\<rparr>)
     None None None None [] ''X'' [] False = ([], Raised AssertionError)"
    by blast
  from t [where g = ?g and x = "''X''" and outputName = "''Z''"] c
  have 3: "onnx2nnet ''m.onnx'' ?g None None None None [] [] ''Z'' False =
     onnx2nnet ''m.onnx'' ?g None None None None [] ''X'' ''Z'' False"
    by blast
  from t [where g = ?g and y = "''Z''" and inputName = "''X''"] d
  have 4: "onnx2nnet ''m.onnx'' ?g None None None None [] ''X'' [] False =
     onnx2nnet ''m.onnx'' ?g None None None None [] ''X'' ''Z'' False"
    by blast
  from 1 2 3 4 show ?thesis by blast
qed

end
